theory Spec2Isabelle
  imports Main
begin

section \<open>The listener component of src/components/Listner.jsx\<close>

text \<open>
  The component keeps its data in React state variables (\<open>useState\<close>), in refs
  (\<open>useRef\<close>) and in objects of the transport SDK (the remote audio track, timers).
  One record holds all of them, together with the closures the component has handed out.

  A callback of the component is a JavaScript closure: an identifier such as
  \<open>reconnectCount\<close> inside it is the \<open>const\<close> of the render that created the callback,
  and calling \<open>setReconnectCount\<close> does not change that \<open>const\<close>. Every handler below
  therefore takes two states: \<open>v\<close>, the state variables as the closure captured them, and
  \<open>s\<close>, the component as it is when the handler runs. A plain read of a state variable
  goes to \<open>v\<close>; a setter, a functional update (\<open>prev => prev + 1\<close>), a ref
  (\<open>.current\<close>) and a method of a track object act on \<open>s\<close>. A handler taken from the
  latest render runs with \<open>v = s\<close>.

  Which closure a handler runs in follows from where the source hands the handler out:
  \<^item> the transport handlers, \<open>joinChannel\<close> and the cleanup are made by the client effect
    of lines 243-399 and keep the closure of the render in which that effect ran; the
    effect runs again, after its cleanup, when one of its dependencies
    \<open>[AgoraRTC, isSDKLoading, isMuted, volume]\<close> has changed;
  \<^item> the interval of line 406 keeps the \<open>checkBroadcasterStatus\<close> of the
    \<open>startHeartbeat\<close> that set it;
  \<^item> the callback of \<open>setTimeout\<close> (line 170) and the \<open>attemptReconnection\<close> it
    calls run in the closure of the call that set the timeout;
  \<^item> the handlers given to the page (\<open>toggleMute\<close>, \<open>handleVolumeChange\<close>,
    \<open>handlePlayPauseStream\<close>, the visibility handler) list what they read in their
    dependency lists and run in the closure of the latest render.
  The function \<open>step\<close> below hands each event to its handler in that closure. A
  closure is kept as the state variables of its render. (\<open>checkBroadcasterStatus\<close>
  leaves \<open>attemptReconnection\<close> out of its dependency list, line 152, so the one it
  calls may come from an earlier render; the two can differ only in \<open>client\<close>, and in
  the runs used below \<open>client\<close> does not change between them.)

  Toasts and console output are not modelled. Calls into the SDK that may fail
  (\<open>subscribe\<close>, \<open>play\<close>, \<open>setVolume\<close>, the rejoin sequence, the presence query) take
  their outcome as an argument.
\<close>

type_synonym track_ref = nat
type_synonym client_ref = nat

text \<open>A remote audio track object of the SDK: the volume last set on it, and whether it
  is playing (\<open>play()\<close> / \<open>stop()\<close>).\<close>

record audio_track =
  track_volume :: nat
  track_playing :: bool

text \<open>What the callback \<open>attemptReconnection\<close> (lines 155-217) reads from its closure:
  its dependency list is \<open>[client, reconnectCount, maxReconnectAttempts]\<close>.\<close>

record closure =
  cl_client :: "client_ref option"
  cl_reconnectCount :: nat

text \<open>The delay of line 168, \<open>Math.min(500 * Math.pow(1.2, reconnectCount), 3000)\<close>.
  JavaScript evaluates it in IEEE double precision; the number itself is not modelled,
  only the value of \<open>reconnectCount\<close> it is computed from.\<close>

datatype js_delay = Backoff nat

text \<open>A pending \<open>setTimeout\<close> of line 170: its handle, its delay and the closure its
  callback runs in.\<close>

record timer =
  timer_id :: nat
  timer_delay :: js_delay
  timer_closure :: closure

text \<open>The state variables as one render has them: what a closure made in that render
  reads.\<close>

record hooks =
  h_isConnected :: bool
  h_isLive :: bool
  h_listenerCount :: nat
  h_volume :: nat
  h_isMuted :: bool
  h_isPlaying :: bool
  h_connectionError :: "string option"
  h_isSDKLoading :: bool
  h_AgoraRTC :: bool
  h_client :: "client_ref option"
  h_remoteAudioTrack :: "track_ref option"
  h_remoteMediaStreamTrack :: "track_ref option"
  h_isReconnecting :: bool
  h_reconnectCount :: nat
  h_wasPlayingBeforeDisconnect :: bool
  h_broadcasterOnline :: bool

record listner =
  isConnected :: bool
  isLive :: bool
  listenerCount :: nat
  volume :: nat
  isMuted :: bool
  isPlaying :: bool
  connectionError :: "string option"
  isSDKLoading :: bool
  AgoraRTC :: bool
  client :: "client_ref option"
  remoteAudioTrack :: "track_ref option"
  remoteMediaStreamTrack :: "track_ref option"
  isReconnecting :: bool
  reconnectCount :: nat
  wasPlayingBeforeDisconnect :: bool
  broadcasterOnline :: bool
  isComponentMountedRef :: bool
  hasShownConnectedToastRef :: bool
  reconnectTimeoutRef :: "nat option"
  heartbeatIntervalRef :: "hooks option"
  timers :: "timer list"
  nextTimer :: nat
  tracks :: "track_ref \<Rightarrow> audio_track"
  debounced :: "(nat \<times> track_ref option \<times> bool) option"
  effectRender :: hooks
  effectActive :: bool
  joinPending :: bool
  nextClient :: nat
  unmounted :: bool

text \<open>
  \<open>AgoraRTC\<close> is True when the state variable holds the SDK. \<open>heartbeatIntervalRef\<close>
  is \<open>None\<close> when \<open>heartbeatIntervalRef.current\<close> is null and otherwise holds the
  closure of the callback the interval calls. \<open>timers\<close> are the reconnection timeouts
  that were set and have not yet run to their outcome, \<open>nextTimer\<close> the next fresh
  timer handle. \<open>debounced\<close> holds the arguments of the pending trailing call of the
  lodash \<open>debounce\<close> of lines 436-447, if there is one. \<open>effectRender\<close> is the render in
  which the client effect ran last, \<open>effectActive\<close> whether that run went past the
  early return of line 244 (so that its handlers are registered and it has a cleanup),
  \<open>joinPending\<close> whether a \<open>joinChannel\<close> of that run or its retry is outstanding,
  \<open>nextClient\<close> the next fresh client, \<open>unmounted\<close> whether the component is gone.
\<close>

text \<open>The values of the current render, and a closure read as a state: the handlers
  read only state variables from their closure.\<close>

definition render :: "listner \<Rightarrow> hooks" where
  "render s =
     \<lparr>h_isConnected = isConnected s, h_isLive = isLive s, h_listenerCount = listenerCount s,
      h_volume = volume s, h_isMuted = isMuted s, h_isPlaying = isPlaying s,
      h_connectionError = connectionError s, h_isSDKLoading = isSDKLoading s,
      h_AgoraRTC = AgoraRTC s, h_client = client s,
      h_remoteAudioTrack = remoteAudioTrack s,
      h_remoteMediaStreamTrack = remoteMediaStreamTrack s,
      h_isReconnecting = isReconnecting s, h_reconnectCount = reconnectCount s,
      h_wasPlayingBeforeDisconnect = wasPlayingBeforeDisconnect s,
      h_broadcasterOnline = broadcasterOnline s\<rparr>"

definition view :: "hooks \<Rightarrow> listner" where
  "view h =
     \<lparr>isConnected = h_isConnected h, isLive = h_isLive h, listenerCount = h_listenerCount h,
      volume = h_volume h, isMuted = h_isMuted h, isPlaying = h_isPlaying h,
      connectionError = h_connectionError h, isSDKLoading = h_isSDKLoading h,
      AgoraRTC = h_AgoraRTC h, client = h_client h,
      remoteAudioTrack = h_remoteAudioTrack h,
      remoteMediaStreamTrack = h_remoteMediaStreamTrack h,
      isReconnecting = h_isReconnecting h, reconnectCount = h_reconnectCount h,
      wasPlayingBeforeDisconnect = h_wasPlayingBeforeDisconnect h,
      broadcasterOnline = h_broadcasterOnline h,
      isComponentMountedRef = False, hasShownConnectedToastRef = False,
      reconnectTimeoutRef = None, heartbeatIntervalRef = None, timers = [], nextTimer = 1,
      tracks = (\<lambda>_. \<lparr>track_volume = 100, track_playing = False\<rparr>), debounced = None,
      effectRender = h, effectActive = False, joinPending = False, nextClient = 0,
      unmounted = False\<rparr>"

datatype media_type = Audio | Video

datatype conn_state = CONNECTED | DISCONNECTED | FAILED | RECONNECTING | CONNECTING | DISCONNECTING

datatype rejoin_result = RejoinOk | RejoinFailed string

text \<open>The outcome of \<open>getBroadcastInfoRequest\<close>: it throws, it answers without
  \<open>data.data\<close>, or it answers with \<open>audience_total\<close> (possibly missing) and with
  \<open>host_online === true\<close> either true or false.\<close>

datatype poll_result = PollThrows | PollNoData | PollData "nat option" bool

datatype subscribe_result = SubscribeFailed string | Subscribed track_ref

subsection \<open>Constants\<close>

definition maxReconnectAttempts :: nat where
  "maxReconnectAttempts = 20"

definition heartbeatInterval :: nat where
  "heartbeatInterval = 1500"

subsection \<open>Track objects\<close>

definition track_setVolume :: "track_ref \<Rightarrow> nat \<Rightarrow> listner \<Rightarrow> listner" where
  "track_setVolume t n s = s\<lparr>tracks := (tracks s)(t := (tracks s t)\<lparr>track_volume := n\<rparr>)\<rparr>"

definition track_play :: "track_ref \<Rightarrow> listner \<Rightarrow> listner" where
  "track_play t s = s\<lparr>tracks := (tracks s)(t := (tracks s t)\<lparr>track_playing := True\<rparr>)\<rparr>"

definition track_stop :: "track_ref \<Rightarrow> listner \<Rightarrow> listner" where
  "track_stop t s = s\<lparr>tracks := (tracks s)(t := (tracks s t)\<lparr>track_playing := False\<rparr>)\<rparr>"

subsection \<open>Reconnection (lines 155-217)\<close>

definition capture :: "listner \<Rightarrow> closure" where
  "capture v = \<lparr>cl_client = client v, cl_reconnectCount = reconnectCount v\<rparr>"

text \<open>The body of \<open>attemptReconnection\<close> up to and including \<open>setTimeout\<close>. The guard
  and the delay read the closure; the counter is incremented by a functional update.\<close>

definition attemptReconnection :: "closure \<Rightarrow> listner \<Rightarrow> listner" where
  "attemptReconnection cl s =
     (if cl_client cl = None \<or> \<not> isComponentMountedRef s
         \<or> maxReconnectAttempts \<le> cl_reconnectCount cl
      then s
      else s\<lparr>isReconnecting := True,
             reconnectCount := reconnectCount s + 1,
             connectionError := None,
             reconnectTimeoutRef := Some (nextTimer s),
             timers := timers s @
               [\<lparr>timer_id = nextTimer s,
                 timer_delay = Backoff (cl_reconnectCount cl),
                 timer_closure = cl\<rparr>],
             nextTimer := nextTimer s + 1\<rparr>)"

text \<open>The callback given to \<open>setTimeout\<close> (lines 170-216), run to the outcome of its
  leave / setClientRole / join sequence. A missing configuration value throws inside the
  same \<open>try\<close> and is a \<open>RejoinFailed\<close>. In the \<open>catch\<close> branch \<open>reconnectCount\<close> is
  still the closure's value, and \<open>attemptReconnection\<close> is the callback this timeout was
  set by, so the retry runs in the same closure.\<close>

definition reconnectTimeout :: "closure \<Rightarrow> rejoin_result \<Rightarrow> listner \<Rightarrow> listner" where
  "reconnectTimeout cl r s =
     (if \<not> isComponentMountedRef s then s
      else case r of
        RejoinOk \<Rightarrow>
          s\<lparr>isConnected := True, isReconnecting := False,
            reconnectCount := 0, connectionError := None\<rparr>
      | RejoinFailed msg \<Rightarrow>
          (let s1 = s\<lparr>connectionError := Some (''Reconnection failed: '' @ msg)\<rparr>
           in if cl_reconnectCount cl < maxReconnectAttempts - 1
              then attemptReconnection cl s1
              else s1\<lparr>isReconnecting := False,
                      connectionError := Some
                        ''Connection failed after maximum attempts. Please refresh the page.''\<rparr>))"

text \<open>A timeout with handle \<open>i\<close> runs: it leaves the pending timers and its callback is
  executed. A handle that is not pending does nothing.\<close>

definition fireTimer :: "nat \<Rightarrow> rejoin_result \<Rightarrow> listner \<Rightarrow> listner" where
  "fireTimer i r s =
     (case find (\<lambda>t. timer_id t = i) (timers s) of
        None \<Rightarrow> s
      | Some t \<Rightarrow>
          reconnectTimeout (timer_closure t) r
            (s\<lparr>timers := filter (\<lambda>t. timer_id t \<noteq> i) (timers s)\<rparr>))"

subsection \<open>Disconnection (lines 220-240)\<close>

definition handleDisconnection :: "listner \<Rightarrow> listner \<Rightarrow> listner" where
  "handleDisconnection v s =
     (if \<not> isComponentMountedRef s then s
      else
        let s1 = s\<lparr>wasPlayingBeforeDisconnect := isPlaying v,
                   isConnected := False, isLive := False, isPlaying := False,
                   connectionError := Some ''Connection lost - attempting to reconnect...''\<rparr>;
            s2 = (case remoteAudioTrack v of
                    None \<Rightarrow> s1
                  | Some t \<Rightarrow> (track_stop t s1)\<lparr>remoteAudioTrack := None\<rparr>);
            s3 = s2\<lparr>remoteMediaStreamTrack := None\<rparr>
        in if \<not> isReconnecting v \<and> reconnectCount v < maxReconnectAttempts
           then attemptReconnection (capture v) s3
           else s3)"

subsection \<open>The heartbeat (lines 111-152 and 402-415)\<close>

definition checkBroadcasterStatus :: "listner \<Rightarrow> poll_result \<Rightarrow> listner \<Rightarrow> listner" where
  "checkBroadcasterStatus v p s =
     (case p of
        PollThrows \<Rightarrow>
          (if \<not> isReconnecting v
           then s\<lparr>connectionError := Some ''Unable to check broadcaster status''\<rparr>
           else s)
      | PollNoData \<Rightarrow> s
      | PollData audience_total hostOnline \<Rightarrow>
          (let currentListeners = (case audience_total of None \<Rightarrow> 0 | Some n \<Rightarrow> n);
               s1 = s\<lparr>listenerCount := currentListeners, broadcasterOnline := hostOnline\<rparr>;
               s2 = (if hostOnline \<and> isConnected v \<and> \<not> isLive v \<and> remoteAudioTrack v = None
                     then
                       (let s' = s1\<lparr>connectionError := Some
                              ''Broadcaster detected but audio not received - reconnecting...''\<rparr>
                        in if \<not> isReconnecting v \<and> reconnectCount v < maxReconnectAttempts
                           then attemptReconnection (capture v) s'
                           else s')
                     else s1)
           in if hostOnline \<and> connectionError v \<noteq> None
              then s2\<lparr>connectionError := None\<rparr>
              else s2))"

text \<open>\<open>startHeartbeat\<close> hands the \<open>checkBroadcasterStatus\<close> of its own closure to
  \<open>setInterval\<close>, unless an interval is running.\<close>

definition startHeartbeat :: "listner \<Rightarrow> listner \<Rightarrow> listner" where
  "startHeartbeat v s =
     (if heartbeatIntervalRef s \<noteq> None then s
      else s\<lparr>heartbeatIntervalRef := Some (render v)\<rparr>)"

definition stopHeartbeat :: "listner \<Rightarrow> listner" where
  "stopHeartbeat s =
     (if heartbeatIntervalRef s \<noteq> None then s\<lparr>heartbeatIntervalRef := None\<rparr> else s)"

subsection \<open>Transport events (lines 256-333)\<close>

text \<open>The \<open>user-published\<close> handler. \<open>setVolume\<close> comes before the track is stored in
  \<open>remoteAudioTrack\<close>; an exception of \<open>subscribe\<close> or \<open>setVolume\<close> leaves the
  \<open>try\<close> block for the outer \<open>catch\<close>. A failed \<open>play()\<close> is caught by the inner
  \<open>catch\<close>, which only logs.\<close>

definition userPublished ::
    "listner \<Rightarrow> media_type \<Rightarrow> subscribe_result \<Rightarrow> bool \<Rightarrow> bool \<Rightarrow> listner \<Rightarrow> listner" where
  "userPublished v mediaType sub setVolumeOk playOk s =
     (if mediaType = Audio \<and> isComponentMountedRef s
      then
        (case sub of
           SubscribeFailed msg \<Rightarrow>
             s\<lparr>connectionError := Some (''Failed to connect to audio: '' @ msg)\<rparr>
         | Subscribed audioTrack \<Rightarrow>
             (if \<not> setVolumeOk
              then s\<lparr>connectionError := Some ''Failed to connect to audio: setVolume''\<rparr>
              else
                let s1 = track_setVolume audioTrack (if isMuted v then 0 else volume v) s;
                    s2 = s1\<lparr>remoteMediaStreamTrack := Some audioTrack,
                            remoteAudioTrack := Some audioTrack,
                            isLive := True,
                            connectionError := None\<rparr>
                in if wasPlayingBeforeDisconnect v
                   then (if playOk
                         then (track_play audioTrack s2)
                                \<lparr>isPlaying := True, wasPlayingBeforeDisconnect := False\<rparr>
                         else s2)
                   else s2))
      else s)"

definition userUnpublished :: "listner \<Rightarrow> media_type \<Rightarrow> listner \<Rightarrow> listner" where
  "userUnpublished v mediaType s =
     (if mediaType = Audio \<and> isComponentMountedRef s
      then s\<lparr>isLive := False, isPlaying := False\<rparr>
      else s)"

definition connectionStateChanged ::
    "listner \<Rightarrow> conn_state \<Rightarrow> string \<Rightarrow> listner \<Rightarrow> listner" where
  "connectionStateChanged v curState reason s =
     (if curState = CONNECTED
      then s\<lparr>connectionError := None, isConnected := True\<rparr>
      else if curState = DISCONNECTED \<and> isConnected v \<and> \<not> isReconnecting v
      then handleDisconnection v s
      else if curState = FAILED
      then handleDisconnection v (s\<lparr>connectionError := Some (''Connection failed: '' @ reason)\<rparr>)
      else if curState = RECONNECTING
      then s\<lparr>connectionError := Some ''Connection unstable, reconnecting...''\<rparr>
      else s)"

definition exception :: "listner \<Rightarrow> string \<Rightarrow> string \<Rightarrow> listner \<Rightarrow> listner" where
  "exception v code msg s =
     (let s1 = s\<lparr>connectionError := Some (''Stream error: '' @ code @ '' - '' @ msg)\<rparr>
      in if (code = ''NETWORK_ERROR'' \<or> code = ''UNEXPECTED_ERROR'')
            \<and> isConnected v \<and> \<not> isReconnecting v
         then handleDisconnection v s1
         else s1)"

subsection \<open>Volume, mute and playback (lines 436-500)\<close>

text \<open>\<open>handleVolumeChange\<close> stores the level and, when not muted, hands the level, the
  track of its closure and \<open>false\<close> to the debounced function, whose pending call it
  replaces.\<close>

definition handleVolumeChange :: "listner \<Rightarrow> nat \<Rightarrow> listner \<Rightarrow> listner" where
  "handleVolumeChange v newVolume s =
     (let s1 = s\<lparr>volume := newVolume\<rparr>
      in if \<not> isMuted v
         then s1\<lparr>debounced := Some (newVolume, remoteAudioTrack v, False)\<rparr>
         else s1)"

text \<open>The trailing call of the debounced function, 100 ms after the last
  \<open>handleVolumeChange\<close>; an exception of \<open>setVolume\<close> is caught and logged.\<close>

definition debouncedVolumeChange :: "bool \<Rightarrow> listner \<Rightarrow> listner" where
  "debouncedVolumeChange setVolumeOk s =
     (case debounced s of
        None \<Rightarrow> s
      | Some (newVolume, audioTrack, muted) \<Rightarrow>
          (let s1 = s\<lparr>debounced := None\<rparr>
           in case audioTrack of
                None \<Rightarrow> s1
              | Some t \<Rightarrow>
                  (if \<not> muted
                   then (if setVolumeOk then track_setVolume t newVolume s1 else s1)
                   else s1)))"

definition handlePlayPauseStream :: "listner \<Rightarrow> bool \<Rightarrow> listner \<Rightarrow> listner" where
  "handlePlayPauseStream v ok s =
     (case remoteAudioTrack v of
        None \<Rightarrow> s\<lparr>connectionError := Some ''No audio stream available''\<rparr>
      | Some t \<Rightarrow>
          (if \<not> ok then s\<lparr>connectionError := Some ''Playback error''\<rparr>
           else if isPlaying v
           then (track_stop t s)\<lparr>isPlaying := False, wasPlayingBeforeDisconnect := False\<rparr>
           else (track_play t s)\<lparr>isPlaying := True, wasPlayingBeforeDisconnect := True,
                                  connectionError := None\<rparr>))"

definition toggleMute :: "listner \<Rightarrow> bool \<Rightarrow> listner \<Rightarrow> listner" where
  "toggleMute v setVolumeOk s =
     (case remoteAudioTrack v of
        None \<Rightarrow> s
      | Some t \<Rightarrow>
          (if \<not> setVolumeOk then s\<lparr>connectionError := Some ''Mute error''\<rparr>
           else
             let newMutedState = \<not> isMuted v
             in (if newMutedState
                 then track_setVolume t 0 s
                 else track_setVolume t (volume v) s)\<lparr>isMuted := newMutedState\<rparr>))"

subsection \<open>Cleanups (lines 386-398 and 559-564)\<close>

text \<open>The cleanup of the client effect: \<open>clearTimeout\<close> of the handle in
  \<open>reconnectTimeoutRef\<close>, \<open>stopHeartbeat\<close>, and \<open>stop()\<close> on the track of the closure.
  It does not call \<open>setRemoteAudioTrack\<close>.\<close>

definition effectCleanup :: "listner \<Rightarrow> listner \<Rightarrow> listner" where
  "effectCleanup v s =
     (let s1 = s\<lparr>isComponentMountedRef := False\<rparr>;
          s2 = (case reconnectTimeoutRef s1 of
                  None \<Rightarrow> s1
                | Some i \<Rightarrow> s1\<lparr>timers := filter (\<lambda>t. timer_id t \<noteq> i) (timers s1)\<rparr>);
          s3 = stopHeartbeat s2
      in case remoteAudioTrack v of
           None \<Rightarrow> s3
         | Some t \<Rightarrow> track_stop t s3)"

definition unmountCleanup :: "listner \<Rightarrow> listner" where
  "unmountCleanup s = stopHeartbeat (s\<lparr>debounced := None\<rparr>)"

subsection \<open>Joining and the visibility handler (lines 336-382 and 503-525)\<close>

text \<open>The continuation of \<open>joinChannel\<close> after \<open>await agoraClient.join(...)\<close>, or its
  \<open>catch\<close> branch (a missing configuration value throws into the same branch). On
  success the heartbeat is started by the \<open>startHeartbeat\<close> of the effect's closure. On
  failure the join is tried again after 2 s if \<open>isConnected\<close> of the closure is
  false.\<close>

definition joinChannel :: "listner \<Rightarrow> bool \<Rightarrow> listner \<Rightarrow> listner" where
  "joinChannel v ok s =
     (if ok
      then
        (if isComponentMountedRef s \<and> \<not> hasShownConnectedToastRef s
         then startHeartbeat v
                (s\<lparr>isConnected := True, connectionError := None,
                   hasShownConnectedToastRef := True, joinPending := False\<rparr>)
         else s\<lparr>joinPending := False\<rparr>)
      else
        (if isComponentMountedRef s
         then s\<lparr>connectionError := Some ''Failed to join'', joinPending := \<not> isConnected v\<rparr>
         else s\<lparr>joinPending := False\<rparr>))"

text \<open>The page became visible. The delayed \<open>handlePlayPauseStream\<close> and the presence
  query of \<open>checkBroadcasterStatus\<close> are run to their outcome here.\<close>

definition handleVisibilityChange ::
    "listner \<Rightarrow> bool \<Rightarrow> poll_result \<Rightarrow> listner \<Rightarrow> listner" where
  "handleVisibilityChange v playOk p s =
     (let s1 = (if isLive v \<and> remoteAudioTrack v \<noteq> None \<and> wasPlayingBeforeDisconnect v
                   \<and> \<not> isPlaying v
                then handlePlayPauseStream v playOk s
                else s)
      in if isConnected v then startHeartbeat v s1 else checkBroadcasterStatus v p s1)"

subsection \<open>The client effect (lines 243-399)\<close>

text \<open>The body of the effect in the render \<open>h\<close>: past the early return it makes a
  client, stores it with \<open>setClient\<close>, registers the handlers and calls
  \<open>joinChannel\<close>.\<close>

definition clientEffect :: "hooks \<Rightarrow> listner \<Rightarrow> listner" where
  "clientEffect h s =
     (if \<not> h_AgoraRTC h \<or> h_isSDKLoading h
      then s\<lparr>effectRender := h, effectActive := False\<rparr>
      else s\<lparr>effectRender := h, effectActive := True,
             client := Some (nextClient s), nextClient := nextClient s + 1,
             joinPending := True\<rparr>)"

definition effectDeps :: "hooks \<Rightarrow> bool \<times> bool \<times> bool \<times> nat" where
  "effectDeps h = (h_AgoraRTC h, h_isSDKLoading h, h_isMuted h, h_volume h)"

text \<open>After an event the component renders again; if a dependency of the client effect
  differs from the render in which the effect ran last, the cleanup of that run (if it
  has one) is executed in its closure and the effect runs in the new render.\<close>

definition commit :: "listner \<Rightarrow> listner" where
  "commit s =
     (if effectDeps (render s) = effectDeps (effectRender s) then s
      else clientEffect (render s)
             (if effectActive s then effectCleanup (view (effectRender s)) s else s))"

text \<open>The component unmounts: the cleanup of the client effect, if it has one, then the
  cleanup of lines 559-564.\<close>

definition unmount :: "listner \<Rightarrow> listner" where
  "unmount s =
     (unmountCleanup (if effectActive s then effectCleanup (view (effectRender s)) s else s))
       \<lparr>effectActive := False, unmounted := True\<rparr>"

subsection \<open>Event sequences\<close>

text \<open>One event of the component's life: the SDK has loaded (lines 84-88), a join has
  resolved, the interval ticks and its presence query has answered, the transport client
  emits an event, a reconnection timeout runs to its outcome, the user acts, the
  debounced call runs, the page becomes visible, the component unmounts.\<close>

datatype event =
    SdkLoaded
  | JoinResolved bool
  | HeartbeatTick poll_result
  | ConnectionStateChanged conn_state string
  | Exception string string
  | TimerFires nat rejoin_result
  | UserPublished media_type subscribe_result bool bool
  | UserUnpublished media_type
  | ToggleMute bool
  | VolumeChange nat
  | DebounceFires bool
  | PlayPause bool
  | VisibilityVisible bool poll_result
  | Teardown

text \<open>The handler an event reaches, in the closure the source gave it. Transport events
  reach the handlers of the effect's last run, if it registered any.\<close>

fun dispatch :: "event \<Rightarrow> listner \<Rightarrow> listner" where
  "dispatch SdkLoaded s = s\<lparr>AgoraRTC := True, isSDKLoading := False\<rparr>"
| "dispatch (JoinResolved ok) s =
     (if effectActive s \<and> joinPending s then joinChannel (view (effectRender s)) ok s else s)"
| "dispatch (HeartbeatTick p) s =
     (case heartbeatIntervalRef s of
        None \<Rightarrow> s
      | Some h \<Rightarrow> checkBroadcasterStatus (view h) p s)"
| "dispatch (ConnectionStateChanged c reason) s =
     (if effectActive s then connectionStateChanged (view (effectRender s)) c reason s else s)"
| "dispatch (Exception code msg) s =
     (if effectActive s then exception (view (effectRender s)) code msg s else s)"
| "dispatch (TimerFires i r) s = fireTimer i r s"
| "dispatch (UserPublished m sub vok pok) s =
     (if effectActive s then userPublished (view (effectRender s)) m sub vok pok s else s)"
| "dispatch (UserUnpublished m) s =
     (if effectActive s then userUnpublished (view (effectRender s)) m s else s)"
| "dispatch (ToggleMute ok) s = toggleMute s ok s"
| "dispatch (VolumeChange n) s = handleVolumeChange s n s"
| "dispatch (DebounceFires ok) s = debouncedVolumeChange ok s"
| "dispatch (PlayPause ok) s = handlePlayPauseStream s ok s"
| "dispatch (VisibilityVisible ok p) s = handleVisibilityChange s ok p s"
| "dispatch Teardown s = unmount s"

text \<open>An event is handled and the component renders again; once the component is
  unmounted no effect runs any more.\<close>

definition step :: "event \<Rightarrow> listner \<Rightarrow> listner" where
  "step e s = (if unmounted (dispatch e s) then dispatch e s else commit (dispatch e s))"

fun run :: "event list \<Rightarrow> listner \<Rightarrow> listner" where
  "run [] s = s"
| "run (e # es) s = run es (step e s)"

text \<open>\<open>k\<close> rejoin failures in a row: each time the timeout whose handle is in
  \<open>reconnectTimeoutRef\<close> (the one set last) runs and its rejoin fails.\<close>

fun failures :: "nat \<Rightarrow> listner \<Rightarrow> listner" where
  "failures 0 s = s"
| "failures (Suc k) s =
     failures k (case reconnectTimeoutRef s of
                   None \<Rightarrow> s
                 | Some i \<Rightarrow> step (TimerFires i (RejoinFailed ''join'')) s)"

subsection \<open>States of the component\<close>

text \<open>The initial values of the \<open>useState\<close> and \<open>useRef\<close> calls (lines 31-73), after
  the first run of the client effect, which returns at line 244. Timer handles are
  positive, as \<open>setTimeout\<close> returns them, so that the test
  \<open>if (reconnectTimeoutRef.current)\<close> of line 389 holds for every handle. A remote track
  starts at the SDK's volume 100 and is not playing.\<close>

definition initial :: listner where
  "initial =
     \<lparr>isConnected = False, isLive = False, listenerCount = 0, volume = 75,
      isMuted = False, isPlaying = False, connectionError = None,
      isSDKLoading = True, AgoraRTC = False, client = None,
      remoteAudioTrack = None, remoteMediaStreamTrack = None,
      isReconnecting = False, reconnectCount = 0,
      wasPlayingBeforeDisconnect = False, broadcasterOnline = False,
      isComponentMountedRef = True, hasShownConnectedToastRef = False,
      reconnectTimeoutRef = None, heartbeatIntervalRef = None, timers = [], nextTimer = 1,
      tracks = (\<lambda>_. \<lparr>track_volume = 100, track_playing = False\<rparr>),
      debounced = None,
      effectRender =
        \<lparr>h_isConnected = False, h_isLive = False, h_listenerCount = 0, h_volume = 75,
         h_isMuted = False, h_isPlaying = False, h_connectionError = None,
         h_isSDKLoading = True, h_AgoraRTC = False, h_client = None,
         h_remoteAudioTrack = None, h_remoteMediaStreamTrack = None,
         h_isReconnecting = False, h_reconnectCount = 0,
         h_wasPlayingBeforeDisconnect = False, h_broadcasterOnline = False\<rparr>,
      effectActive = False, joinPending = False, nextClient = 0, unmounted = False\<rparr>"

text \<open>The SDK has loaded and the first join has succeeded.\<close>

definition joined :: listner where
  "joined = run [SdkLoaded, JoinResolved True] initial"

text \<open>Joined; the broadcaster has published track 7 and the user has pressed play.\<close>

definition listening :: listner where
  "listening = run [UserPublished Audio (Subscribed 7) True True, PlayPause True] joined"

text \<open>The page became visible after the client reported CONNECTED and before the join
  resolved, so that the interval was set by the visibility handler of a render in which
  the component is connected and has its client.\<close>

definition armed :: listner where
  "armed =
     run [SdkLoaded, ConnectionStateChanged CONNECTED [], VisibilityVisible True PollNoData,
          JoinResolved True] initial"

subsection \<open>Predicates on states\<close>

text \<open>The interval calls a \<open>checkBroadcasterStatus\<close> in whose closure the component is
  not connected.\<close>

definition stale_heartbeat :: "listner \<Rightarrow> bool" where
  "stale_heartbeat s =
     (case heartbeatIntervalRef s of None \<Rightarrow> False | Some h \<Rightarrow> \<not> h_isConnected h)"

text \<open>The interval calls a \<open>checkBroadcasterStatus\<close> in whose closure the component is
  connected, not live, without a track, not reconnecting, at attempt count 0 and with a
  client; the component is mounted.\<close>

definition armed_heartbeat :: "listner \<Rightarrow> bool" where
  "armed_heartbeat s =
     (isComponentMountedRef s \<and>
      (case heartbeatIntervalRef s of
         None \<Rightarrow> False
       | Some h \<Rightarrow> h_isConnected h \<and> \<not> h_isLive h \<and> h_remoteAudioTrack h = None \<and>
                  \<not> h_isReconnecting h \<and> h_reconnectCount h = 0 \<and> h_client h \<noteq> None))"

text \<open>No dependency of the client effect has changed since it ran last, so that the next
  render runs no effect.\<close>

definition settled :: "listner \<Rightarrow> bool" where
  "settled s = (effectDeps (render s) = effectDeps (effectRender s))"

text \<open>Connected, not live, no track, mounted and with a client, and no reconnection
  started: nothing in flight, no attempt counted, no timeout pending.\<close>

definition stuck :: "listner \<Rightarrow> bool" where
  "stuck s =
     (isConnected s \<and> \<not> isLive s \<and> remoteAudioTrack s = None \<and> isComponentMountedRef s \<and>
      client s \<noteq> None \<and> \<not> isReconnecting s \<and> reconnectCount s = 0 \<and> timers s = [])"

text \<open>A retry chain is running: the component is mounted and reconnecting, the counter
  is \<open>n\<close>, and the only pending timeout is the one set last, whose callback runs in a
  closure with a client and with \<open>reconnectCount = c\<close> and whose delay was computed from
  \<open>c\<close>.\<close>

definition chain :: "nat \<Rightarrow> nat \<Rightarrow> listner \<Rightarrow> bool" where
  "chain c n s =
     (isComponentMountedRef s \<and> settled s \<and> isReconnecting s \<and> reconnectCount s = n \<and>
      reconnectTimeoutRef s = Some (nextTimer s - 1) \<and>
      (case timers s of
         [t] \<Rightarrow> timer_id t = nextTimer s - 1 \<and> cl_reconnectCount (timer_closure t) = c
                 \<and> cl_client (timer_closure t) \<noteq> None \<and> timer_delay t = Backoff c
       | _ \<Rightarrow> False))"


section \<open>Helper lemmas\<close>

lemma view_simps [simp]:
  "isConnected (view h) = h_isConnected h" "isLive (view h) = h_isLive h"
  "remoteAudioTrack (view h) = h_remoteAudioTrack h" "isReconnecting (view h) = h_isReconnecting h"
  "reconnectCount (view h) = h_reconnectCount h" "connectionError (view h) = h_connectionError h"
  "client (view h) = h_client h" "isPlaying (view h) = h_isPlaying h"
  "isMuted (view h) = h_isMuted h" "volume (view h) = h_volume h"
  "wasPlayingBeforeDisconnect (view h) = h_wasPlayingBeforeDisconnect h"
  by (simp_all add: view_def)

lemma render_view [simp]: "render (view h) = h"
  by (simp add: render_def view_def)

lemma commit_settled: "settled s \<Longrightarrow> commit s = s"
  by (simp add: settled_def commit_def)

lemma step_settled: "settled (dispatch e s) \<Longrightarrow> step e s = dispatch e s"
  by (simp add: step_def commit_settled)

lemma commit_keeps:
  "volume (commit s) = volume s" "isMuted (commit s) = isMuted s"
  "remoteAudioTrack (commit s) = remoteAudioTrack s"
  "track_volume (tracks (commit s) t) = track_volume (tracks s t)"
  "reconnectCount (commit s) = reconnectCount s" "nextTimer (commit s) = nextTimer s"
  "debounced (commit s) = debounced s" "isReconnecting (commit s) = isReconnecting s"
  "unmounted (commit s) = unmounted s" "isPlaying (commit s) = isPlaying s"
  "wasPlayingBeforeDisconnect (commit s) = wasPlayingBeforeDisconnect s"
  by (simp_all add: commit_def clientEffect_def effectCleanup_def stopHeartbeat_def track_stop_def
      Let_def split: option.splits)

lemma step_keeps:
  "volume (step e s) = volume (dispatch e s)" "isMuted (step e s) = isMuted (dispatch e s)"
  "remoteAudioTrack (step e s) = remoteAudioTrack (dispatch e s)"
  "track_volume (tracks (step e s) t) = track_volume (tracks (dispatch e s) t)"
  "reconnectCount (step e s) = reconnectCount (dispatch e s)"
  "nextTimer (step e s) = nextTimer (dispatch e s)"
  "debounced (step e s) = debounced (dispatch e s)"
  "isReconnecting (step e s) = isReconnecting (dispatch e s)"
  "isPlaying (step e s) = isPlaying (dispatch e s)"
  "wasPlayingBeforeDisconnect (step e s) = wasPlayingBeforeDisconnect (dispatch e s)"
  by (simp_all add: step_def commit_keeps)

lemma settled_frame:
  "settled s \<Longrightarrow> AgoraRTC s' = AgoraRTC s \<Longrightarrow> isSDKLoading s' = isSDKLoading s \<Longrightarrow>
   isMuted s' = isMuted s \<Longrightarrow> volume s' = volume s \<Longrightarrow> effectRender s' = effectRender s
   \<Longrightarrow> settled s'"
  by (simp add: settled_def effectDeps_def render_def)

lemma chain_fail:
  assumes "chain c n s" "c < maxReconnectAttempts - 1"
  shows "chain c (Suc n) (step (TimerFires (nextTimer s - 1) (RejoinFailed msg)) s)"
proof -
  let ?s' = "fireTimer (nextTimer s - 1) (RejoinFailed msg) s"
  from assms have a: "chain c (Suc n) ?s'"
    by (auto simp: chain_def fireTimer_def reconnectTimeout_def attemptReconnection_def Let_def
      maxReconnectAttempts_def settled_def effectDeps_def render_def split: list.splits)
  then have "settled ?s'" by (simp add: chain_def)
  then have "step (TimerFires (nextTimer s - 1) (RejoinFailed msg)) s = ?s'"
    by (simp add: step_settled)
  with a show ?thesis by simp
qed

lemma chain_failures:
  "chain c n s \<Longrightarrow> c < maxReconnectAttempts - 1 \<Longrightarrow> chain c (n + k) (failures k s)"
proof (induction k arbitrary: n s)
  case 0
  then show ?case by simp
next
  case (Suc k)
  from Suc.prems have r: "reconnectTimeoutRef s = Some (nextTimer s - 1)"
    by (simp add: chain_def)
  from Suc.prems
  have "chain c (Suc n) (step (TimerFires (nextTimer s - 1) (RejoinFailed ''join'')) s)"
    by (rule chain_fail)
  from Suc.IH[OF this Suc.prems(2)] show ?case
    by (simp add: r)
qed

lemma armed_ok: "armed_heartbeat armed \<and> settled armed \<and> timers armed = [] \<and> reconnectCount armed = 0
   \<and> \<not> unmounted armed \<and> nextTimer armed = 1"
  by code_simp

lemma joined_ok: "stuck joined \<and> stale_heartbeat joined \<and> settled joined \<and> \<not> unmounted joined"
  by code_simp

lemma stale_tick:
  assumes "stuck s" "stale_heartbeat s" "settled s" "\<not> unmounted s"
  shows "stuck (step (HeartbeatTick p) s) \<and> stale_heartbeat (step (HeartbeatTick p) s) \<and>
         settled (step (HeartbeatTick p) s) \<and> \<not> unmounted (step (HeartbeatTick p) s)"
proof -
  let ?s' = "dispatch (HeartbeatTick p) s"
  from assms have a: "stuck ?s' \<and> stale_heartbeat ?s' \<and> settled ?s' \<and> \<not> unmounted ?s'"
    by (cases p)
      (auto simp: stuck_def stale_heartbeat_def settled_def effectDeps_def render_def
        checkBroadcasterStatus_def Let_def split: option.splits)
  then have "step (HeartbeatTick p) s = ?s'" by (simp add: step_settled)
  with a show ?thesis by simp
qed

lemma stale_ticks:
  "stuck s \<Longrightarrow> stale_heartbeat s \<Longrightarrow> settled s \<Longrightarrow> \<not> unmounted s
     \<Longrightarrow> stuck (run (map HeartbeatTick ps) s)"
proof (induction ps arbitrary: s)
  case Nil
  then show ?case by simp
next
  case (Cons p ps)
  from stale_tick [OF Cons.prems, of p] Cons.IH show ?case by simp
qed

lemma armed_tick:
  assumes "armed_heartbeat s" "settled s" "\<not> unmounted s"
  shows "armed_heartbeat (step (HeartbeatTick (PollData a True)) s) \<and>
         settled (step (HeartbeatTick (PollData a True)) s) \<and>
         \<not> unmounted (step (HeartbeatTick (PollData a True)) s) \<and>
         length (timers (step (HeartbeatTick (PollData a True)) s)) = Suc (length (timers s)) \<and>
         reconnectCount (step (HeartbeatTick (PollData a True)) s) = Suc (reconnectCount s) \<and>
         isReconnecting (step (HeartbeatTick (PollData a True)) s)"
proof -
  let ?s' = "dispatch (HeartbeatTick (PollData a True)) s"
  from assms have a: "armed_heartbeat ?s' \<and> settled ?s' \<and> \<not> unmounted ?s' \<and>
      length (timers ?s') = Suc (length (timers s)) \<and>
      reconnectCount ?s' = Suc (reconnectCount s) \<and> isReconnecting ?s'"
    by (auto simp: armed_heartbeat_def settled_def effectDeps_def render_def
        checkBroadcasterStatus_def attemptReconnection_def capture_def maxReconnectAttempts_def
        Let_def split: option.splits)
  then have "step (HeartbeatTick (PollData a True)) s = ?s'" by (simp add: step_settled)
  with a show ?thesis by simp
qed

lemma armed_ticks:
  "armed_heartbeat s \<Longrightarrow> settled s \<Longrightarrow> \<not> unmounted s \<Longrightarrow>
     length (timers (run (replicate n (HeartbeatTick (PollData a True))) s)) = length (timers s) + n \<and>
     reconnectCount (run (replicate n (HeartbeatTick (PollData a True))) s) = reconnectCount s + n"
proof (induction n arbitrary: s)
  case 0
  then show ?case by simp
next
  case (Suc n)
  from armed_tick [OF Suc.prems, of a] Suc.IH [of "step (HeartbeatTick (PollData a True)) s"]
  show ?case by simp
qed

lemma chain_after_tick: "chain 0 1 (step (HeartbeatTick (PollData a True)) armed)"
proof -
  let ?s' = "dispatch (HeartbeatTick (PollData a True)) armed"
  from armed_ok have a: "chain 0 1 ?s'"
    by (auto simp: chain_def armed_heartbeat_def settled_def effectDeps_def render_def
        checkBroadcasterStatus_def attemptReconnection_def capture_def maxReconnectAttempts_def
        Let_def split: option.splits)
  then have "settled ?s'" by (simp add: chain_def)
  moreover from armed_ok have "\<not> unmounted ?s'"
    by (auto simp: checkBroadcasterStatus_def attemptReconnection_def Let_def split: option.splits)
  ultimately have "step (HeartbeatTick (PollData a True)) armed = ?s'" by (simp add: step_settled)
  with a show ?thesis by simp
qed

lemma chain_armed:
  "chain 0 (1 + k) (failures k (step (HeartbeatTick (PollData a True)) armed))"
  using chain_after_tick by (rule chain_failures) (simp add: maxReconnectAttempts_def)





















lemma run_append: "run (xs @ ys) s = run ys (run xs s)"
  by (induction xs arbitrary: s) simp_all

lemma volume_change_muted:
  "isMuted s \<Longrightarrow>
     isMuted (step (VolumeChange n) s) \<and>
     track_volume (tracks (step (VolumeChange n) s) t) = track_volume (tracks s t) \<and>
     remoteAudioTrack (step (VolumeChange n) s) = remoteAudioTrack s \<and>
     volume (step (VolumeChange n) s) = n"
  by (simp add: step_keeps handleVolumeChange_def)

lemma run_volume_changes_muted:
  "isMuted s \<Longrightarrow>
     isMuted (run (map VolumeChange ns) s) \<and>
     track_volume (tracks (run (map VolumeChange ns) s) t) = track_volume (tracks s t) \<and>
     remoteAudioTrack (run (map VolumeChange ns) s) = remoteAudioTrack s \<and>
     volume (run (map VolumeChange ns) s) = last (volume s # ns)"
proof (induction ns arbitrary: s)
  case Nil
  then show ?case by simp
next
  case (Cons n ns)
  from volume_change_muted [OF Cons.prems, of n t] Cons.IH [of "step (VolumeChange n) s"]
  show ?case by simp
qed

lemma debounce_reaches_track:
  "remoteAudioTrack s = Some t \<Longrightarrow> \<not> isMuted s \<Longrightarrow>
     volume (run [VolumeChange n, DebounceFires True] s) = n \<and>
     track_volume (tracks (run [VolumeChange n, DebounceFires True] s) t) = n"
proof -
  assume h: "remoteAudioTrack s = Some t" "\<not> isMuted s"
  let ?s1 = "step (VolumeChange n) s"
  from h have a: "debounced ?s1 = Some (n, Some t, False)" "volume ?s1 = n"
    by (simp_all add: step_keeps handleVolumeChange_def)
  then show ?thesis
    by (simp add: step_keeps debouncedVolumeChange_def track_setVolume_def)
qed

lemma toggle_with_track:
  "remoteAudioTrack s = Some t \<Longrightarrow>
     isMuted (step (ToggleMute True) s) = (\<not> isMuted s) \<and>
     track_volume (tracks (step (ToggleMute True) s) t) = (if isMuted s then volume s else 0)"
  by (simp add: step_keeps toggleMute_def Let_def track_setVolume_def)

lemma toggle_without_track:
  "remoteAudioTrack s = None \<Longrightarrow> isMuted (step (ToggleMute ok) s) = isMuted s"
  by (simp add: step_keeps toggleMute_def)

lemma unpublished_listening:
  "effectActive (step (UserUnpublished Audio) listening) \<and>
   \<not> h_wasPlayingBeforeDisconnect (effectRender (step (UserUnpublished Audio) listening)) \<and>
   wasPlayingBeforeDisconnect (step (UserUnpublished Audio) listening) \<and>
   \<not> isPlaying (step (UserUnpublished Audio) listening) \<and>
   isComponentMountedRef (step (UserUnpublished Audio) listening)"
  by code_simp

lemma userPublished_no_flag:
  "\<not> wasPlayingBeforeDisconnect v \<Longrightarrow>
     isPlaying (userPublished v m sub vok pok s) = isPlaying s \<and>
     wasPlayingBeforeDisconnect (userPublished v m sub vok pok s) = wasPlayingBeforeDisconnect s"
  by (cases sub) (simp_all add: userPublished_def Let_def track_setVolume_def)

lemma listening_settled: "settled listening"
  by code_simp

section \<open>The claims\<close>

subsection \<open>C1: the heartbeat and the stuck state\<close>

text \<open>
  Claim C1 does not hold of the code. The SDK has loaded and the join has succeeded; the
  interval was set by \<open>startHeartbeat()\<close> at line 365, inside the client effect, and so
  calls the \<open>checkBroadcasterStatus\<close> of the render in which that effect ran, where
  \<open>isConnected\<close> is false. The test of line 133 reads that \<open>isConnected\<close>. So whatever
  the presence queries answer, after any number of ticks the component is still connected,
  not live, without a track, mounted and with its client, and no reconnection has
  started: not reconnecting, attempt counter 0, no timeout pending.
\<close>

theorem C1_heartbeat_never_reconnects: "stuck (run (map HeartbeatTick ps) joined)"
  using joined_ok by (simp add: stale_ticks)

text \<open>Two ticks whose queries report the broadcaster online: the flag is published and
  nothing else happens.\<close>

theorem C1_two_ticks:
  "stuck (run (map HeartbeatTick [PollData None True, PollData (Some 3) True]) joined) \<and>
   broadcasterOnline (run (map HeartbeatTick [PollData None True, PollData (Some 3) True]) joined)"
proof -
  have "broadcasterOnline (run (map HeartbeatTick [PollData None True, PollData (Some 3) True]) joined)"
    by code_simp
  with C1_heartbeat_never_reconnects [of "[PollData None True, PollData (Some 3) True]"]
  show ?thesis by blast
qed

subsection \<open>C2: at most one reconnection attempt is pending\<close>

text \<open>
  Claim C2 does not hold of the code. When the interval was set by the visibility handler
  of a render in which the component is connected (line 515), every tick runs in that
  render's closure, where \<open>isReconnecting\<close> stays false and \<open>reconnectCount\<close> stays 0:
  the test of line 136 passes at every tick, \<open>attemptReconnection\<close> has no guard of its
  own against a pending attempt, and each tick that finds the broadcaster online sets one
  more timeout. After \<open>n\<close> such ticks \<open>n\<close> timeouts are pending.
\<close>

theorem C2_every_tick_sets_a_timeout:
  "length (timers (run (replicate n (HeartbeatTick (PollData a True))) armed)) = n \<and>
   reconnectCount (run (replicate n (HeartbeatTick (PollData a True))) armed) = n"
  using armed_ok armed_ticks [of armed n a] by simp

text \<open>Two ticks: two attempts in flight.\<close>

theorem C2_two_ticks:
  "length (timers (run [HeartbeatTick (PollData None True), HeartbeatTick (PollData None True)]
      armed)) = 2 \<and>
   isReconnecting (run [HeartbeatTick (PollData None True)] armed)"
proof -
  have "isReconnecting (run [HeartbeatTick (PollData None True)] armed)" by code_simp
  moreover have "replicate 2 (HeartbeatTick (PollData None True))
      = [HeartbeatTick (PollData None True), HeartbeatTick (PollData None True)]"
    by (simp add: numeral_2_eq_2)
  ultimately show ?thesis
    using C2_every_tick_sets_a_timeout [of 2 None] by simp
qed

subsection \<open>C3: the attempt budget\<close>

text \<open>
  Claim C3 does not hold of the code. A tick of the interval set by the visibility handler
  starts a reconnection, and every rejoin fails. The \<open>catch\<close> branch (line 201) compares
  the \<open>reconnectCount\<close> of its closure, which stays 0, with 19, and calls the
  \<open>attemptReconnection\<close> of the same closure, whose guard compares the same 0 with 20.
  So after any number \<open>k\<close> of failures in a row the component is still reconnecting, the
  counter is \<open>k + 1\<close> and the next timeout is pending.
\<close>

theorem C3_retry_chain_unbounded:
  "isReconnecting (failures k (step (HeartbeatTick (PollData a True)) armed)) \<and>
   reconnectCount (failures k (step (HeartbeatTick (PollData a True)) armed)) = k + 1 \<and>
   length (timers (failures k (step (HeartbeatTick (PollData a True)) armed))) = 1"
  using chain_armed [of k a] by (simp add: chain_def split: list.splits)

text \<open>After 20 failures: still reconnecting, counter 21, the 21st timeout pending.\<close>

theorem C3_twenty_failures:
  "isReconnecting (failures 20 (step (HeartbeatTick (PollData None True)) armed)) \<and>
   reconnectCount (failures 20 (step (HeartbeatTick (PollData None True)) armed)) = 21 \<and>
   length (timers (failures 20 (step (HeartbeatTick (PollData None True)) armed))) = 1"
  using C3_retry_chain_unbounded [of 20 None] by simp

subsection \<open>C4: the backoff delay\<close>

text \<open>
  Claim C4 does not hold of the code. In the same retry chain the delay of line 168 is
  computed from the \<open>reconnectCount\<close> of the closure, which stays 0: after \<open>k\<close> failures
  the counter is \<open>k + 1\<close>, and the pending timeout, the one of attempt index \<open>k\<close>, waits
  the delay of index 0.
\<close>

theorem C4_delay_never_grows:
  "map timer_delay (timers (failures k (step (HeartbeatTick (PollData a True)) armed)))
     = [Backoff 0] \<and>
   reconnectCount (failures k (step (HeartbeatTick (PollData a True)) armed)) = k + 1"
  using chain_armed [of k a] by (auto simp: chain_def split: list.splits)

text \<open>The second attempt waits the delay of index 0.\<close>

theorem C4_second_attempt:
  "map timer_delay (timers (failures 1 (step (HeartbeatTick (PollData None True)) armed)))
     = [Backoff 0] \<and>
   reconnectCount (failures 1 (step (HeartbeatTick (PollData None True)) armed)) = 2"
  using C4_delay_never_grows [of 1 None] by simp

subsection \<open>C5: the attempt counter\<close>




subsection \<open>C6: attaching a published track\<close>

text \<open>
  Claim C6 does not hold of the code. The user is listening (play was pressed, so
  \<open>wasPlayingBeforeDisconnect\<close> is set), the broadcaster unpublishes and publishes
  again. The \<open>user-published\<close> handler was registered by the client effect and reads the
  \<open>wasPlayingBeforeDisconnect\<close> of the render in which that effect ran, which is false
  (line 276). So whatever is published and whatever \<open>subscribe\<close>, \<open>setVolume\<close> and
  \<open>play\<close> would answer, playback is not resumed and the flag is still set.
\<close>

theorem C6_attach_does_not_resume:
  "wasPlayingBeforeDisconnect (step (UserUnpublished Audio) listening) \<and>
   \<not> isPlaying
       (step (UserPublished m sub vok pok) (step (UserUnpublished Audio) listening)) \<and>
   wasPlayingBeforeDisconnect
       (step (UserPublished m sub vok pok) (step (UserUnpublished Audio) listening))"
  using unpublished_listening
    userPublished_no_flag [of "view (effectRender (step (UserUnpublished Audio) listening))"
      m sub vok pok "step (UserUnpublished Audio) listening"]
  by (simp add: step_keeps)

text \<open>Track 8 is published and \<open>play()\<close> would succeed: the track is attached, at the
  stored volume, and does not play.\<close>

theorem C6_republish:
  "remoteAudioTrack
     (run [UserUnpublished Audio, UserPublished Audio (Subscribed 8) True True] listening) = Some 8 \<and>
   track_volume (tracks
     (run [UserUnpublished Audio, UserPublished Audio (Subscribed 8) True True] listening) 8) = 75 \<and>
   \<not> track_playing (tracks
     (run [UserUnpublished Audio, UserPublished Audio (Subscribed 8) True True] listening) 8) \<and>
   \<not> isPlaying
     (run [UserUnpublished Audio, UserPublished Audio (Subscribed 8) True True] listening) \<and>
   wasPlayingBeforeDisconnect
     (run [UserUnpublished Audio, UserPublished Audio (Subscribed 8) True True] listening)"
proof -
  have "remoteAudioTrack
     (run [UserUnpublished Audio, UserPublished Audio (Subscribed 8) True True] listening) = Some 8"
    "track_volume (tracks
     (run [UserUnpublished Audio, UserPublished Audio (Subscribed 8) True True] listening) 8) = 75"
    "\<not> track_playing (tracks
     (run [UserUnpublished Audio, UserPublished Audio (Subscribed 8) True True] listening) 8)"
    by code_simp+
  with C6_attach_does_not_resume [of Audio "Subscribed 8" True True]
  show ?thesis by simp
qed

subsection \<open>C7: the end of a track handle\<close>

text \<open>
  Claim C7 does not hold of the code. The user is listening to track 7. On unpublish the
  handler touches neither the track nor \<open>remoteAudioTrack\<close>. On a transport failure
  \<open>handleDisconnection\<close> runs in the closure of the client effect, whose
  \<open>remoteAudioTrack\<close> is null, so the test of line 230 fails. On unmount the cleanup
  reads the same closure at line 394. After each of the three events the handle is still
  stored and the track is still playing.
\<close>

theorem C7_handle_survives:
  "remoteAudioTrack (step (UserUnpublished m) listening) = Some 7 \<and>
   track_playing (tracks (step (UserUnpublished m) listening) 7) \<and>
   remoteAudioTrack (step (ConnectionStateChanged FAILED r) listening) = Some 7 \<and>
   track_playing (tracks (step (ConnectionStateChanged FAILED r) listening) 7) \<and>
   remoteAudioTrack (step Teardown listening) = Some 7 \<and>
   track_playing (tracks (step Teardown listening) 7)"
proof -
  have l: "effectActive listening" "h_remoteAudioTrack (effectRender listening) = None"
    "remoteAudioTrack listening = Some 7" "track_playing (tracks listening 7)"
    "reconnectTimeoutRef listening = None" "h_client (effectRender listening) = None"
    by code_simp+
  have a: "remoteAudioTrack (commit s) = remoteAudioTrack s" for s
    by (simp add: commit_keeps)
  have u: "remoteAudioTrack (dispatch (UserUnpublished m) listening) = Some 7 \<and>
      tracks (dispatch (UserUnpublished m) listening) = tracks listening \<and>
      settled (dispatch (UserUnpublished m) listening)"
    using l listening_settled by (auto simp: userUnpublished_def elim: settled_frame)
  have f: "remoteAudioTrack (dispatch (ConnectionStateChanged FAILED r) listening) = Some 7 \<and>
      tracks (dispatch (ConnectionStateChanged FAILED r) listening) = tracks listening \<and>
      settled (dispatch (ConnectionStateChanged FAILED r) listening)"
    using l listening_settled
    by (auto simp: connectionStateChanged_def handleDisconnection_def attemptReconnection_def
        capture_def Let_def elim: settled_frame)
  have t: "remoteAudioTrack (dispatch Teardown listening) = Some 7 \<and>
      tracks (dispatch Teardown listening) = tracks listening \<and>
      unmounted (dispatch Teardown listening)"
    using l
    by (simp add: unmount_def unmountCleanup_def effectCleanup_def stopHeartbeat_def Let_def)
  from u f t l show ?thesis
    by (simp add: step_def commit_settled)
qed

text \<open>The listening component holds the playing track 7; after a FAILED state it is
  disconnected, and the handle and the playing track are still there.\<close>

theorem C7_failed_event:
  "remoteAudioTrack listening = Some 7 \<and> track_playing (tracks listening 7) \<and>
   \<not> isConnected (step (ConnectionStateChanged FAILED []) listening) \<and>
   remoteAudioTrack (step (ConnectionStateChanged FAILED []) listening) = Some 7 \<and>
   track_playing (tracks (step (ConnectionStateChanged FAILED []) listening) 7) \<and>
   unmounted (step Teardown listening) \<and>
   track_playing (tracks (step Teardown listening) 7)"
proof -
  have "remoteAudioTrack listening = Some 7" "track_playing (tracks listening 7)"
    "\<not> isConnected (step (ConnectionStateChanged FAILED []) listening)"
    "unmounted (step Teardown listening)"
    by code_simp+
  with C7_handle_survives [of Audio "[]"] show ?thesis by simp
qed

subsection \<open>C8: a failed presence query\<close>

text \<open>
  Claim C8. When the presence query throws, the heartbeat interval stays as it is, the
  published broadcaster-online flag and listener count are unchanged, and no reconnection
  starts: \<open>isConnected\<close>, \<open>isReconnecting\<close>, the attempt counter and the pending
  timeouts are unchanged.
\<close>

theorem C8_poll_failure_is_transient:
  "heartbeatIntervalRef (checkBroadcasterStatus v PollThrows s) = heartbeatIntervalRef s \<and>
   broadcasterOnline (checkBroadcasterStatus v PollThrows s) = broadcasterOnline s \<and>
   listenerCount (checkBroadcasterStatus v PollThrows s) = listenerCount s \<and>
   isConnected (checkBroadcasterStatus v PollThrows s) = isConnected s \<and>
   isReconnecting (checkBroadcasterStatus v PollThrows s) = isReconnecting s \<and>
   reconnectCount (checkBroadcasterStatus v PollThrows s) = reconnectCount s \<and>
   timers (checkBroadcasterStatus v PollThrows s) = timers s \<and>
   nextTimer (checkBroadcasterStatus v PollThrows s) = nextTimer s"
  by (simp add: checkBroadcasterStatus_def)

text \<open>The joined component after a tick that reported the broadcaster online with 5
  listeners, at a query that throws.\<close>

theorem C8_poll_failure_witness:
  "heartbeatIntervalRef (checkBroadcasterStatus joined PollThrows
      (run [HeartbeatTick (PollData (Some 5) True)] joined)) \<noteq> None \<and>
   broadcasterOnline (checkBroadcasterStatus joined PollThrows
      (run [HeartbeatTick (PollData (Some 5) True)] joined)) \<and>
   listenerCount (checkBroadcasterStatus joined PollThrows
      (run [HeartbeatTick (PollData (Some 5) True)] joined)) = 5 \<and>
   \<not> isReconnecting (checkBroadcasterStatus joined PollThrows
      (run [HeartbeatTick (PollData (Some 5) True)] joined)) \<and>
   timers (checkBroadcasterStatus joined PollThrows
      (run [HeartbeatTick (PollData (Some 5) True)] joined)) = []"
proof -
  have "heartbeatIntervalRef (run [HeartbeatTick (PollData (Some 5) True)] joined) \<noteq> None"
    "broadcasterOnline (run [HeartbeatTick (PollData (Some 5) True)] joined)"
    "listenerCount (run [HeartbeatTick (PollData (Some 5) True)] joined) = 5"
    "\<not> isReconnecting (run [HeartbeatTick (PollData (Some 5) True)] joined)"
    "timers (run [HeartbeatTick (PollData (Some 5) True)] joined) = []"
    by code_simp+
  with C8_poll_failure_is_transient
    [of joined "run [HeartbeatTick (PollData (Some 5) True)] joined"]
  show ?thesis by metis
qed

subsection \<open>C9: volume and mute requests\<close>

text \<open>
  Claim C9, as amended. A volume request is always stored; when the handler's closure is
  not muted and holds a track, the debounced call sets that track's volume to the
  requested level. A mute toggle whose closure holds a track sets the track's volume
  (0 when muting, the stored level when unmuting) and flips the stored flag; a mute
  toggle whose closure holds no track changes nothing, so the request is not recorded.
  The same holds of the events of the component: a volume change followed by the
  debounced call, and a mute toggle, with and without a stored track.
\<close>

theorem C9_volume_and_mute_requests:
  "volume (handleVolumeChange v n s) = n \<and>
   (\<not> isMuted v \<and> remoteAudioTrack v = Some t \<longrightarrow>
      track_volume (tracks (debouncedVolumeChange True (handleVolumeChange v n s)) t) = n) \<and>
   (remoteAudioTrack v = Some t \<longrightarrow>
      isMuted (toggleMute v True s) = (\<not> isMuted v) \<and>
      track_volume (tracks (toggleMute v True s) t) = (if isMuted v then volume v else 0)) \<and>
   (remoteAudioTrack v = None \<longrightarrow> toggleMute v ok s = s) \<and>
   (remoteAudioTrack s = Some t \<and> \<not> isMuted s \<longrightarrow>
      volume (run [VolumeChange n, DebounceFires True] s) = n \<and>
      track_volume (tracks (run [VolumeChange n, DebounceFires True] s) t) = n) \<and>
   (remoteAudioTrack s = Some t \<longrightarrow>
      isMuted (step (ToggleMute True) s) = (\<not> isMuted s) \<and>
      track_volume (tracks (step (ToggleMute True) s) t) = (if isMuted s then volume s else 0)) \<and>
   (remoteAudioTrack s = None \<longrightarrow> isMuted (step (ToggleMute ok) s) = isMuted s)"
proof -
  have a: "volume (handleVolumeChange v n s) = n \<and>
   (\<not> isMuted v \<and> remoteAudioTrack v = Some t \<longrightarrow>
      track_volume (tracks (debouncedVolumeChange True (handleVolumeChange v n s)) t) = n) \<and>
   (remoteAudioTrack v = Some t \<longrightarrow>
      isMuted (toggleMute v True s) = (\<not> isMuted v) \<and>
      track_volume (tracks (toggleMute v True s) t) = (if isMuted v then volume v else 0)) \<and>
   (remoteAudioTrack v = None \<longrightarrow> toggleMute v ok s = s)"
    by (simp add: handleVolumeChange_def debouncedVolumeChange_def toggleMute_def
        Let_def track_setVolume_def)
  from a debounce_reaches_track [of s t n] toggle_with_track [of s t]
    toggle_without_track [of s ok]
  show ?thesis by blast
qed

text \<open>With track 7 attached, a request for level 40 is stored and reaches the track, and
  a mute toggle silences the track.\<close>

theorem C9_requests_witness:
  "remoteAudioTrack listening = Some 7 \<and> \<not> isMuted listening \<and>
   volume (run [VolumeChange 40, DebounceFires True] listening) = 40 \<and>
   track_volume (tracks (run [VolumeChange 40, DebounceFires True] listening) 7) = 40 \<and>
   isMuted (step (ToggleMute True) listening) \<and>
   track_volume (tracks (step (ToggleMute True) listening) 7) = 0"
proof -
  have "remoteAudioTrack listening = Some 7" "\<not> isMuted listening"
    by code_simp+
  with C9_volume_and_mute_requests [of listening 40 listening 7 True]
  show ?thesis by simp
qed

text \<open>The claim as stated fails for a mute request without a track: the flag stays
  unset, and the track attached next starts at volume 75, not muted.\<close>

theorem C9_mute_without_track_counterexample:
  "remoteAudioTrack joined = None \<and> \<not> isMuted joined \<and>
   \<not> isMuted (step (ToggleMute True) joined) \<and>
   remoteAudioTrack (run [ToggleMute True, UserPublished Audio (Subscribed 7) True True] joined)
     = Some 7 \<and>
   track_volume (tracks
     (run [ToggleMute True, UserPublished Audio (Subscribed 7) True True] joined) 7) = 75"
  by code_simp

subsection \<open>C10: muting keeps the stored volume\<close>

text \<open>
  Claim C10. \<open>toggleMute\<close> never changes the stored volume; muting a track sets the
  track's volume to 0. A volume change made while muted stores the new level and touches
  neither the track objects nor the debounced call. Hence, for a component that holds a
  track and is not muted: after muting, any sequence of volume changes and unmuting, the
  track's volume is the level stored last (the old level if there was no change).
\<close>

theorem C10_mute_keeps_volume:
  "volume (toggleMute v ok s) = volume s \<and>
   (remoteAudioTrack v = Some t \<and> \<not> isMuted v \<longrightarrow>
      track_volume (tracks (toggleMute v True s) t) = 0 \<and> isMuted (toggleMute v True s)) \<and>
   (isMuted v \<longrightarrow>
      tracks (handleVolumeChange v n s) = tracks s \<and>
      debounced (handleVolumeChange v n s) = debounced s \<and>
      volume (handleVolumeChange v n s) = n) \<and>
   (remoteAudioTrack s = Some t \<and> \<not> isMuted s \<longrightarrow>
      track_volume (tracks (run (ToggleMute True # map VolumeChange ns @ [ToggleMute True]) s) t)
        = last (volume s # ns) \<and>
      volume (run (ToggleMute True # map VolumeChange ns @ [ToggleMute True]) s)
        = last (volume s # ns) \<and>
      \<not> isMuted (run (ToggleMute True # map VolumeChange ns @ [ToggleMute True]) s))"
proof -
  have a: "volume (toggleMute v ok s) = volume s"
    by (simp add: toggleMute_def Let_def track_setVolume_def split: option.splits)
  have b: "remoteAudioTrack v = Some t \<and> \<not> isMuted v \<longrightarrow>
      track_volume (tracks (toggleMute v True s) t) = 0 \<and> isMuted (toggleMute v True s)"
    by (simp add: toggleMute_def Let_def track_setVolume_def)
  have c: "isMuted v \<longrightarrow>
      tracks (handleVolumeChange v n s) = tracks s \<and>
      debounced (handleVolumeChange v n s) = debounced s \<and>
      volume (handleVolumeChange v n s) = n"
    by (simp add: handleVolumeChange_def)
  have d: "track_volume (tracks (run (ToggleMute True # map VolumeChange ns @ [ToggleMute True]) s) t)
        = last (volume s # ns) \<and>
      volume (run (ToggleMute True # map VolumeChange ns @ [ToggleMute True]) s)
        = last (volume s # ns) \<and>
      \<not> isMuted (run (ToggleMute True # map VolumeChange ns @ [ToggleMute True]) s)"
    if h: "remoteAudioTrack s = Some t" "\<not> isMuted s"
  proof -
    let ?s1 = "step (ToggleMute True) s"
    let ?s2 = "run (map VolumeChange ns) ?s1"
    from h have m: "isMuted ?s1" and v1: "volume ?s1 = volume s"
      and r1: "remoteAudioTrack ?s1 = Some t"
      by (simp_all add: step_keeps toggleMute_def Let_def track_setVolume_def)
    from run_volume_changes_muted [OF m, of ns t] v1 r1
    have s2: "isMuted ?s2" "remoteAudioTrack ?s2 = Some t" "volume ?s2 = last (volume s # ns)"
      by simp_all
    have "run (ToggleMute True # map VolumeChange ns @ [ToggleMute True]) s
        = step (ToggleMute True) ?s2"
      by (simp add: run_append)
    with s2 show ?thesis
      by (simp add: step_keeps toggleMute_def Let_def track_setVolume_def)
  qed
  from a b c d show ?thesis by blast
qed

text \<open>The listening component at level 75: muted, then set to 10, 60 and 35, then
  unmuted, its track is at 35.\<close>

theorem C10_mute_keeps_volume_witness:
  "remoteAudioTrack listening = Some 7 \<and> \<not> isMuted listening \<and>
   volume (toggleMute listening True listening) = 75 \<and>
   track_volume (tracks (toggleMute listening True listening) 7) = 0 \<and>
   track_volume (tracks (run (ToggleMute True # map VolumeChange [10, 60, 35] @ [ToggleMute True])
       listening) 7) = 35"
proof -
  have "remoteAudioTrack listening = Some 7" "\<not> isMuted listening" "volume listening = 75"
    by code_simp+
  with C10_mute_keeps_volume [of listening True listening 7 0 "[10, 60, 35]"]
  show ?thesis by simp
qed

end
